theory Spec2Isabelle
  imports Complex_Main
begin

section \<open>Example 3 setup: poroelasticity with contact (setup\_3.py)\<close>

text \<open>
  The development embeds the class \<open>Example3Setup\<close> of \<^verbatim>\<open>setup_3.py\<close>.
  Python floats are read as exact real numbers: every statement below is about the
  branches the code takes and the places it writes to, not about rounding.
  Exceptions are values of the type \<open>error\<close>; a function that may raise returns
  \<open>error + 'a\<close> with \<open>Inl\<close> for the exception.
\<close>

subsection \<open>Exceptions\<close>

datatype error =
    ValueError string
  | IndexError
  | KeyError string
  | ZeroDivisionError
  | AttributeError string

subsection \<open>The numpy operations the setup uses\<close>

text \<open>One-dimensional arrays are lists, two-dimensional arrays are lists of rows.\<close>

definition np_zeros :: "nat \<Rightarrow> real list" where
  "np_zeros n = replicate n 0"

definition np_ones :: "nat \<Rightarrow> real list" where
  "np_ones n = replicate n 1"

definition np_zeros2 :: "nat \<Rightarrow> nat \<Rightarrow> real list list" where
  "np_zeros2 r c = replicate r (replicate c 0)"

text \<open>\<^verbatim>\<open>np.max\<close> and \<^verbatim>\<open>np.min\<close> raise \<^verbatim>\<open>ValueError\<close> on an empty array.\<close>

definition np_max :: "real list \<Rightarrow> error + real" where
  "np_max xs = (case xs of
       [] \<Rightarrow> Inl (ValueError ''zero-size array to reduction operation maximum which has no identity'')
     | x # r \<Rightarrow> Inr (fold max r x))"

definition np_min :: "real list \<Rightarrow> error + real" where
  "np_min xs = (case xs of
       [] \<Rightarrow> Inl (ValueError ''zero-size array to reduction operation minimum which has no identity'')
     | x # r \<Rightarrow> Inr (fold min r x))"

text \<open>\<^verbatim>\<open>a[i]\<close> on the first axis: a negative index counts from the end, an index out
  of range raises \<^verbatim>\<open>IndexError\<close>.\<close>

definition py_index :: "'a list \<Rightarrow> int \<Rightarrow> error + 'a" where
  "py_index xs i =
     (if 0 \<le> i \<and> i < int (length xs) then Inr (xs ! nat i)
      else if i < 0 \<and> - int (length xs) \<le> i then Inr (xs ! nat (int (length xs) + i))
      else Inl IndexError)"

text \<open>\<^verbatim>\<open>a[idx]\<close> with an integer array \<open>idx\<close> (here always face numbers, which are
  not negative): one entry per index, \<^verbatim>\<open>IndexError\<close> if one is out of range.\<close>

definition fancy_index :: "'a list \<Rightarrow> nat list \<Rightarrow> error + 'a list" where
  "fancy_index xs idx =
     (if \<forall>i \<in> set idx. i < length xs then Inr (map (\<lambda>i. xs ! i) idx) else Inl IndexError)"

text \<open>\<^verbatim>\<open>a[i, mask] = v\<close> on a two-dimensional array: row \<open>i\<close> must exist and the
  boolean mask must be as long as the row; the masked entries of the row become \<open>v\<close>.\<close>

definition set_row_masked :: "real list list \<Rightarrow> nat \<Rightarrow> bool list \<Rightarrow> real \<Rightarrow> error + real list list" where
  "set_row_masked a i msk v =
     (if length a \<le> i then Inl IndexError
      else if length msk \<noteq> length (a ! i) then Inl IndexError
      else Inr (a[i := map (\<lambda>(m, old). if m then v else old) (zip msk (a ! i))]))"

text \<open>\<^verbatim>\<open>a.ravel('F')\<close>: column-major flattening of an \<open>r \<times> c\<close> array; entry \<open>n\<close> of the
  result is \<open>a[n mod r][n div r]\<close>. On a one-dimensional array it is the identity.\<close>

definition ravel_F :: "real list list \<Rightarrow> real list" where
  "ravel_F a = (case a of
       [] \<Rightarrow> []
     | r0 # _ \<Rightarrow> map (\<lambda>n. a ! (n mod length a) ! (n div length a)) [0 ..< length a * length r0])"

text \<open>Division of Python floats raises on a zero divisor.\<close>

definition py_div :: "real \<Rightarrow> real \<Rightarrow> error + real" where
  "py_div a b = (if b = 0 then Inl ZeroDivisionError else Inr (a / b))"

subsection \<open>Grids\<close>

text \<open>
  The fields of a porepy grid that the setup reads. \<open>face_centers\<close> and \<open>nodes\<close> are
  coordinate arrays with one row per space direction. The sub-face topology
  \<^verbatim>\<open>pp.fvutils.SubcellTopology(g)\<close> is computed by the library; it is passed to the
  functions below as a parameter \<open>SubcellTopology\<close>.
\<close>

record Grid =
  dim :: nat
  num_cells :: nat
  face_centers :: "real list list"
  nodes :: "real list list"

record MortarGrid =
  mortar_num_cells :: nat

record SubcellTopology =
  num_subfno_unique :: nat
  fno_unique :: "nat list"

subsection \<open>The setup object\<close>

text \<open>
  The attributes of \<open>self\<close> that the methods read or write. \<open>perm_k\<close> and
  \<open>storage_S\<close> are the attributes \<^verbatim>\<open>self.k\<close> and \<^verbatim>\<open>self.S\<close>; \<open>pressure_scale\<close> is set by
  the parent class. \<open>key_m\<close> and \<open>key_f\<close> exist only once \<open>set_parameters\<close> has
  assigned them (\<open>None\<close>: the attribute is missing).
\<close>

record Example3Setup =
  end_time :: real
  storage_S :: real
  perm_k :: real
  viscosity :: real
  pressure_scale :: real
  key_m :: "string option"
  key_f :: "string option"

subsection \<open>initial\_condition\<close>

definition initial_condition ::
  "Example3Setup \<Rightarrow> Grid \<Rightarrow> MortarGrid \<Rightarrow> real list list
    \<Rightarrow> real list list \<times> real list list \<times> real list list" where
  "initial_condition self g mg nc =
     (let u0 = np_zeros2 (dim g) (num_cells g);
          Tc = map (map (\<lambda>x. - 100 * x)) nc;
          uc = np_zeros2 (dim g) (mortar_num_cells mg)
      in (u0, uc, Tc))"

subsection \<open>bc\_values\<close>

text \<open>
  The faces on the top boundary:
  \<^verbatim>\<open>top = g.face_centers[g.dim - 1] > np.max(g.nodes[g.dim - 1]) - 1e-9\<close>.
\<close>

definition top_faces :: "Grid \<Rightarrow> error + bool list" where
  "top_faces g =
     (case py_index (face_centers g) (int (dim g) - 1) of Inl e \<Rightarrow> Inl e | Inr fc \<Rightarrow>
      (case py_index (nodes g) (int (dim g) - 1) of Inl e \<Rightarrow> Inl e | Inr nd \<Rightarrow>
      (case np_max nd of Inl e \<Rightarrow> Inl e | Inr m \<Rightarrow>
      Inr (map (\<lambda>c. c > m - 1 / 10 ^ 9) fc))))"

text \<open>The prescribed displacement at time \<open>t\<close>: the two branches on \<open>t < end_time / 2\<close>.\<close>

definition bc_displacement :: "Example3Setup \<Rightarrow> real \<Rightarrow> error + real \<times> real" where
  "bc_displacement self t =
     (if t < end_time self / 2 then
        (case py_div (0.005 * t) (end_time self / 2) of Inl e \<Rightarrow> Inl e | Inr x \<Rightarrow>
        (case py_div (- 0.002 * t) (end_time self / 2) of Inl e \<Rightarrow> Inl e | Inr y \<Rightarrow>
         Inr (x, y)))
      else Inr (0.005, - 0.002))"

definition bc_values ::
  "(Grid \<Rightarrow> SubcellTopology) \<Rightarrow> Example3Setup \<Rightarrow> Grid \<Rightarrow> real \<Rightarrow> string \<Rightarrow> error + real list" where
  "bc_values SubcellTopology self g t key =
     (let s_t = SubcellTopology g in
      (case top_faces g of Inl e \<Rightarrow> Inl e | Inr top_f \<Rightarrow>
      (case key_m self of None \<Rightarrow> Inl (AttributeError ''key_m'') | Some self_key_m \<Rightarrow>
       if key = self_key_m then
         (let u_bc = np_zeros2 (dim g) (num_subfno_unique s_t) in
          (case bc_displacement self t of Inl e \<Rightarrow> Inl e | Inr (x, y) \<Rightarrow>
          (case fancy_index top_f (fno_unique s_t) of Inl e \<Rightarrow> Inl e | Inr msk0 \<Rightarrow>
          (case set_row_masked u_bc 0 msk0 x of Inl e \<Rightarrow> Inl e | Inr u_bc \<Rightarrow>
          (case fancy_index top_f (fno_unique s_t) of Inl e \<Rightarrow> Inl e | Inr msk1 \<Rightarrow>
          (case set_row_masked u_bc 1 msk1 y of Inl e \<Rightarrow> Inl e | Inr u_bc \<Rightarrow>
           Inr (ravel_F u_bc)))))))
       else
         (case key_f self of None \<Rightarrow> Inl (AttributeError ''key_f'') | Some self_key_f \<Rightarrow>
          if key = self_key_f then
            (let p_bc = np_zeros (num_subfno_unique s_t) in Inr p_bc)
          else Inl (ValueError (''Unknown keyword: '' @ key))))))"

subsection \<open>The data dictionaries\<close>

text \<open>
  Discretization objects are kept symbolic: a constructor applied to the keyword the
  object was built with. \<open>ImplicitMpfa\<close> and \<open>ImplicitMassMatrix\<close> come from the
  module \<^verbatim>\<open>discretizations\<close>, the others from porepy.
\<close>

datatype discretization =
    Mpsa string
  | ImplicitMpfa string
  | ImplicitMassMatrix string
  | BiotStabilization string
  | GradP string
  | DivD string

datatype interface_law =
    RobinContact string discretization
  | RobinContactBiotPressure string discretization
  | DivU_StressMortar string discretization

datatype boundary_condition =
    BoundaryCondition Grid "bool list" string
  | boundary_to_sub_boundary boundary_condition SubcellTopology

datatype tensor = SecondOrderTensor nat "real list"

text \<open>The values stored in a parameter dictionary.\<close>

datatype param =
    Scalar real
  | Array "real list"
  | Dict "string \<rightharpoonup> real list"
  | Bc boundary_condition
  | Tensor tensor

text \<open>
  An interface coupling is a dictionary with the keys \<open>g\<close> and \<open>(g, g)\<close>; the value at a
  grid is a pair (variable, term), the value at the pair of grids is a pair
  (mortar variable, interface law).
\<close>

datatype coupling_key = GridKey Grid | EdgeKey Grid Grid

datatype coupling_entry = Term string string | Law string interface_law

text \<open>
  A data dictionary of a grid or of an interface, with the porepy keys the setup uses.
  \<open>None\<close> means that the key is not in the dictionary.
\<close>

record data =
  PARAMETERS :: "(string \<rightharpoonup> (string \<rightharpoonup> param)) option"
  PRIMARY_VARIABLES :: "(string \<rightharpoonup> (string \<rightharpoonup> nat)) option"
  DISCRETIZATION :: "(string \<rightharpoonup> (string \<rightharpoonup> discretization)) option"
  COUPLING_DISCRETIZATION :: "(string \<rightharpoonup> (coupling_key \<rightharpoonup> coupling_entry)) option"

text \<open>
  Everything \<open>set_parameters\<close> mutates: the setup object, the two data dictionaries, and
  the list of calls \<^verbatim>\<open>pp.Biot(key_m, key_f).discretize(g, data_node)\<close> made so far (the
  matrices that call computes are not modelled).
\<close>

record world =
  self :: Example3Setup
  data_node :: data
  data_edge :: data
  discretized :: "(string \<times> string) list"

text \<open>
  \<^verbatim>\<open>pp.initialize_data(g, data, keyword, specified_parameters)\<close> of porepy: the parameter
  dictionary of \<open>keyword\<close> is created, or updated entry by entry when it exists. Its
  bookkeeping of discretization matrices is not modelled.
\<close>

definition initialize_data :: "Grid \<Rightarrow> data \<Rightarrow> string \<Rightarrow> (string \<rightharpoonup> param) \<Rightarrow> data" where
  "initialize_data g d keyword specified_parameters =
     (case PARAMETERS d of
        Some P \<Rightarrow>
          (case P keyword of
             Some old \<Rightarrow> d\<lparr>PARAMETERS := Some (P(keyword \<mapsto> old ++ specified_parameters))\<rparr>
           | None \<Rightarrow> d\<lparr>PARAMETERS := Some (P(keyword \<mapsto> specified_parameters))\<rparr>)
      | None \<Rightarrow> d\<lparr>PARAMETERS := Some [keyword \<mapsto> specified_parameters]\<rparr>)"

subsection \<open>set\_parameters\<close>

text \<open>The local variables of \<open>set_parameters\<close> that are stored later.\<close>

record computed =
  v_K :: tensor
  v_alpha :: real
  v_dt :: real
  v_bc_flow :: boundary_condition
  v_p_bc :: "real list"
  v_u0 :: "real list"
  v_p0 :: "real list"
  v_lam_u0 :: "real list"
  v_u_bc0 :: "real list"
  v_u_bc :: "real list"

text \<open>
  Lines 42 to 67 of \<^verbatim>\<open>setup_3.py\<close>: fluid parameters, Biot parameters, the flow boundary,
  boundary values and the initial solution. Nothing is stored yet. The porepy objects
  (\<open>SecondOrderTensor\<close>, \<open>BoundaryCondition\<close>) are symbolic and their constructors are taken
  not to raise; the entries of \<open>K\<close> are \<open>kxx / viscosity\<close>, an array division that numpy
  carries out without raising.
\<close>

definition set_parameters_values ::
  "(Grid \<Rightarrow> SubcellTopology) \<Rightarrow> Example3Setup \<Rightarrow> Grid \<Rightarrow> MortarGrid \<Rightarrow> string \<Rightarrow> string
     \<Rightarrow> error + computed" where
  "set_parameters_values SubcellTopology slf g mg km kf =
     (let kxx = map (\<lambda>x. perm_k slf * x) (np_ones (num_cells g)) in
      (case py_div (viscosity slf) (pressure_scale slf) of Inl e \<Rightarrow> Inl e | Inr visc \<Rightarrow>
      (let K = SecondOrderTensor (dim g) (map (\<lambda>x. x / visc) kxx);
           alpha = 1;
           dt = end_time slf / 20;
           s_t = SubcellTopology g in
      (case py_index (face_centers g) 0 of Inl e \<Rightarrow> Inl e | Inr fc0 \<Rightarrow>
      (case py_index (nodes g) 0 of Inl e \<Rightarrow> Inl e | Inr nd0 \<Rightarrow>
      (case np_max nd0 of Inl e \<Rightarrow> Inl e | Inr mx \<Rightarrow>
      (let east = map (\<lambda>c. c > mx - 1 / 10 ^ 9) fc0 in
      (case py_index (face_centers g) 0 of Inl e \<Rightarrow> Inl e | Inr fc0 \<Rightarrow>
      (case py_index (nodes g) 0 of Inl e \<Rightarrow> Inl e | Inr nd0 \<Rightarrow>
      (case np_min nd0 of Inl e \<Rightarrow> Inl e | Inr mn \<Rightarrow>
      (let west = map (\<lambda>c. c < mn + 1 / 10 ^ 9) fc0;
           bc_flow = BoundaryCondition g west ''dir'';
           bc_flow = boundary_to_sub_boundary bc_flow s_t in
      (case bc_values SubcellTopology slf g dt kf of Inl e \<Rightarrow> Inl e | Inr p_bc \<Rightarrow>
      (let u0 = np_zeros (dim g * num_cells g);
           p0 = np_zeros (num_cells g);
           lam_u0 = np_zeros (dim g * mortar_num_cells mg) in
      (case bc_values SubcellTopology slf g 0 km of Inl e \<Rightarrow> Inl e | Inr u_bc0 \<Rightarrow>
      (case bc_values SubcellTopology slf g dt km of Inl e \<Rightarrow> Inl e | Inr u_bc \<Rightarrow>
       Inr \<lparr>v_K = K, v_alpha = alpha, v_dt = dt, v_bc_flow = bc_flow, v_p_bc = p_bc,
            v_u0 = u0, v_p0 = p0, v_lam_u0 = lam_u0, v_u_bc0 = u_bc0,
            v_u_bc = u_bc\<rparr>)))))))))))))))"

text \<open>
  Lines 71 to 75: the four assignments into the parameter dictionary \<open>m\<close> of the
  mechanics keyword.
\<close>

definition mechanics_updates :: "computed \<Rightarrow> (string \<rightharpoonup> param) \<Rightarrow> (string \<rightharpoonup> param)" where
  "mechanics_updates v m =
     (let m = m(''biot_alpha'' \<mapsto> Scalar (v_alpha v));
          m = m(''time_step'' \<mapsto> Scalar (v_dt v));
          m = m(''bc_values'' \<mapsto> Array (v_u_bc v));
          m = m(''state'' \<mapsto> Dict [''displacement'' \<mapsto> v_u0 v, ''bc_values'' \<mapsto> v_u_bc0 v])
      in m)"

text \<open>
  Lines 82 to 90: the dictionary handed to \<^verbatim>\<open>pp.initialize_data\<close> for the flow keyword.
  \<^verbatim>\<open>p_bc.ravel('F')\<close> is \<open>p_bc\<close> itself, a one-dimensional array.
\<close>

definition flow_dictionary :: "Grid \<Rightarrow> Example3Setup \<Rightarrow> computed \<Rightarrow> (string \<rightharpoonup> param)" where
  "flow_dictionary g slf v =
     [''bc'' \<mapsto> Bc (v_bc_flow v),
      ''bc_values'' \<mapsto> Array (v_p_bc v),
      ''second_order_tensor'' \<mapsto> Tensor (v_K v),
      ''mass_weight'' \<mapsto> Scalar (storage_S slf),
      ''aperture'' \<mapsto> Array (np_ones (num_cells g)),
      ''biot_alpha'' \<mapsto> Scalar (v_alpha v),
      ''time_step'' \<mapsto> Scalar (v_dt v),
      ''state'' \<mapsto> Array (v_p0 v)]"

text \<open>
  Lines 71 to 91: Biot parameters and state under the mechanics keyword, the mortar state
  under the contact keyword, then the flow dictionary. A missing dictionary raises
  \<^verbatim>\<open>KeyError\<close>; what was stored before stays stored.
\<close>

definition set_parameters_store ::
  "Grid \<Rightarrow> string \<Rightarrow> string \<Rightarrow> string \<Rightarrow> computed \<Rightarrow> world \<Rightarrow> (error + unit) \<times> world" where
  "set_parameters_store g km kc kf v w =
     (case PARAMETERS (data_node w) of None \<Rightarrow> (Inl (KeyError ''parameters''), w) | Some P \<Rightarrow>
     (case P km of None \<Rightarrow> (Inl (KeyError km), w) | Some m \<Rightarrow>
     (let w = w\<lparr>data_node := (data_node w)\<lparr>PARAMETERS := Some (P(km \<mapsto> mechanics_updates v m))\<rparr>\<rparr> in
     (case PARAMETERS (data_edge w) of None \<Rightarrow> (Inl (KeyError ''parameters''), w) | Some Pe \<Rightarrow>
     (case Pe kc of None \<Rightarrow> (Inl (KeyError kc), w) | Some me \<Rightarrow>
     (let w = w\<lparr>data_edge :=
                  (data_edge w)\<lparr>PARAMETERS := Some (Pe(kc \<mapsto> me(''state'' \<mapsto> Array (v_lam_u0 v))))\<rparr>\<rparr>;
          w = w\<lparr>data_node := initialize_data g (data_node w) kf (flow_dictionary g (self w) v)\<rparr>
      in (Inr (), w)))))))"

text \<open>
  Lines 100 to 152: the primary variables and discretizations of the bulk grid, those of
  the interface, and the call of the Biot discretization. A dictionary display with a
  repeated key keeps the last value, as the successive updates do.
\<close>

definition set_parameters_discretization :: "Grid \<Rightarrow> string \<Rightarrow> string \<Rightarrow> world \<Rightarrow> world" where
  "set_parameters_discretization g km kf w =
     (let dn = (data_node w)\<lparr>PRIMARY_VARIABLES :=
                  Some [''u'' \<mapsto> [''cells'' \<mapsto> dim g], ''p'' \<mapsto> [''cells'' \<mapsto> 1]]\<rparr>;
          mpfa_disc = ImplicitMpfa kf;
          dn = dn\<lparr>DISCRETIZATION := Some
                  [''u'' \<mapsto> [''div_sigma'' \<mapsto> Mpsa km],
                   ''p'' \<mapsto> [''flux'' \<mapsto> mpfa_disc,
                            ''mass'' \<mapsto> ImplicitMassMatrix kf,
                            ''stab'' \<mapsto> BiotStabilization kf],
                   ''u_p'' \<mapsto> [''grad_p'' \<mapsto> GradP km],
                   ''p_u'' \<mapsto> [''div_u'' \<mapsto> DivD km]]\<rparr>;
          gradP_disp = RobinContactBiotPressure km (GradP km);
          div_u_lam = DivU_StressMortar km (DivD km);
          de = (data_edge w)\<lparr>PRIMARY_VARIABLES := Some [''lam_u'' \<mapsto> [''cells'' \<mapsto> dim g]]\<rparr>;
          de = de\<lparr>COUPLING_DISCRETIZATION := Some
                  [''robin_discretization'' \<mapsto>
                     [GridKey g \<mapsto> Term ''u'' ''div_sigma'',
                      GridKey g \<mapsto> Term ''u'' ''div_sigma'',
                      EdgeKey g g \<mapsto> Law ''lam_u'' (RobinContact km (Mpsa km))],
                   ''p_contribution_to_displacement'' \<mapsto>
                     [GridKey g \<mapsto> Term ''p'' ''flux'',
                      GridKey g \<mapsto> Term ''p'' ''flux'',
                      EdgeKey g g \<mapsto> Law ''lam_u'' gradP_disp],
                   ''lam_u_contr_2_div_u'' \<mapsto>
                     [GridKey g \<mapsto> Term ''p'' ''flux'',
                      GridKey g \<mapsto> Term ''p'' ''flux'',
                      EdgeKey g g \<mapsto> Law ''lam_u'' div_u_lam]]\<rparr>
      in w\<lparr>data_node := dn, data_edge := de, discretized := discretized w @ [(km, kf)]\<rparr>)"

text \<open>
  The method itself. The parent's \<open>set_parameters\<close> (class \<open>Example1Setup\<close>) is the
  parameter \<open>super_set_parameters\<close>: it returns the mechanics and the contact keyword and
  the state it leaves behind, or raises.
\<close>

definition set_parameters ::
  "(Grid \<Rightarrow> SubcellTopology)
     \<Rightarrow> (Grid \<Rightarrow> MortarGrid \<Rightarrow> world \<Rightarrow> (error + string \<times> string) \<times> world)
     \<Rightarrow> Grid \<Rightarrow> MortarGrid \<Rightarrow> world \<Rightarrow> (error + string \<times> string) \<times> world" where
  "set_parameters SubcellTopology super_set_parameters g mg w0 =
     (case super_set_parameters g mg w0 of
        (Inl e, w) \<Rightarrow> (Inl e, w)
      | (Inr (km, kc), w) \<Rightarrow>
          (let kf = ''flow'' in
          if \<not> km = kc then
            (Inl (ValueError ''Mechanics keyword must equal contact keyword''), w)
          else
            let w = w\<lparr>self := (self w)\<lparr>key_m := Some km, key_f := Some kf\<rparr>\<rparr> in
            case set_parameters_values SubcellTopology (self w) g mg km kf of
              Inl e \<Rightarrow> (Inl e, w)
            | Inr v \<Rightarrow>
                (case set_parameters_store g km kc kf v w of
                  (Inl e, w) \<Rightarrow> (Inl e, w)
                | (Inr u, w) \<Rightarrow> (Inr (km, kf), set_parameters_discretization g km kf w))))"

subsection \<open>Well-formed grids and the top boundary\<close>

text \<open>
  What a porepy grid and its sub-face topology guarantee: the coordinate arrays have three
  rows, the dimension is at most three, there is at least one node, every sub-face belongs
  to a face of the grid, and \<open>num_subfno_unique\<close> counts the entries of \<open>fno_unique\<close>.
\<close>

definition grid_ok :: "Grid \<Rightarrow> SubcellTopology \<Rightarrow> bool" where
  "grid_ok g s_t \<longleftrightarrow>
     dim g \<le> 3 \<and> length (face_centers g) = 3 \<and> length (nodes g) = 3
   \<and> (\<forall>r \<in> set (nodes g). r \<noteq> [])
   \<and> (\<forall>r \<in> set (face_centers g). \<forall>f \<in> set (fno_unique s_t). f < length r)
   \<and> num_subfno_unique s_t = length (fno_unique s_t)"

text \<open>
  A face is on the top boundary when the last coordinate of its centre exceeds the largest
  last coordinate of a node minus \<open>10\<^sup>-\<^sup>9\<close>.
\<close>

definition is_top_face :: "Grid \<Rightarrow> nat \<Rightarrow> bool" where
  "is_top_face g f \<longleftrightarrow>
     face_centers g ! (dim g - 1) ! f > Max (set (nodes g ! (dim g - 1))) - 1 / 10 ^ 9"

text \<open>
  The prescribed displacement in the words of the specification: a linear ramp to
  \<open>(0.005, -0.002)\<close> over the first half of \<open>end_time\<close>, constant afterwards.
\<close>

definition ramp :: "Example3Setup \<Rightarrow> real \<Rightarrow> real \<times> real" where
  "ramp slf t =
     (if t < end_time slf / 2
      then (0.005 * t / (end_time slf / 2), - 0.002 * t / (end_time slf / 2))
      else (0.005, - 0.002))"

text \<open>
  A sub-face vector \<open>v\<close> (\<open>dim\<close> consecutive components per sub-face) that is \<open>(x, y)\<close>, padded
  with zeros, on the sub-faces of the top boundary and zero on every other sub-face.
\<close>

definition displacement_on_top :: "Grid \<Rightarrow> SubcellTopology \<Rightarrow> real \<Rightarrow> real \<Rightarrow> real list \<Rightarrow> bool" where
  "displacement_on_top g s_t x y v \<longleftrightarrow>
     length v = dim g * num_subfno_unique s_t
   \<and> (\<forall>i < num_subfno_unique s_t. \<forall>c < dim g.
         v ! (dim g * i + c) =
           (if is_top_face g (fno_unique s_t ! i)
            then (if c = 0 then x else if c = 1 then y else 0) else 0))"

text \<open>A row of zeros of length \<open>n\<close> after the masked assignment of \<open>v\<close>.\<close>

definition masked_row :: "bool list \<Rightarrow> nat \<Rightarrow> real \<Rightarrow> real list" where
  "masked_row msk n v = map (\<lambda>(m, old). if m then v else old) (zip msk (replicate n 0))"

subsection \<open>Concrete inputs\<close>

text \<open>
  The unit square as a grid of one cell: four faces with two sub-faces each; face 2 is the
  top face. And the unit interval as a one-dimensional grid of two cells.
\<close>

definition g_square :: Grid where
  "g_square = \<lparr>dim = 2, num_cells = 1,
     face_centers = [[1/2, 1, 1/2, 0], [0, 1/2, 1, 1/2], [0, 0, 0, 0]],
     nodes = [[0, 1, 1, 0], [0, 0, 1, 1], [0, 0, 0, 0]]\<rparr>"

definition st_square :: "Grid \<Rightarrow> SubcellTopology" where
  "st_square g = \<lparr>num_subfno_unique = 8, fno_unique = [0, 0, 1, 1, 2, 2, 3, 3]\<rparr>"

definition g_line :: Grid where
  "g_line = \<lparr>dim = 1, num_cells = 2,
     face_centers = [[0, 1/2, 1], [0, 0, 0], [0, 0, 0]],
     nodes = [[0, 1/2, 1], [0, 0, 0], [0, 0, 0]]\<rparr>"

definition st_line :: "Grid \<Rightarrow> SubcellTopology" where
  "st_line g = \<lparr>num_subfno_unique = 3, fno_unique = [0, 1, 2]\<rparr>"

definition mg_ex :: MortarGrid where
  "mg_ex = \<lparr>mortar_num_cells = 2\<rparr>"

text \<open>The setup after \<open>set_parameters\<close>, with the end time \<open>0.05\<close> of the constructor.\<close>

definition setup_ex :: Example3Setup where
  "setup_ex = \<lparr>end_time = 1/20, storage_S = 1 / 10 ^ 10, perm_k = 1 / 10 ^ 11,
     viscosity = 1 / 1000, pressure_scale = 1, key_m = Some ''mech'', key_f = Some ''flow''\<rparr>"

definition super_ex :: "Grid \<Rightarrow> MortarGrid \<Rightarrow> world \<Rightarrow> (error + string \<times> string) \<times> world" where
  "super_ex g mg w = (Inr (''mech'', ''mech''), w)"

definition super_bad :: "Grid \<Rightarrow> MortarGrid \<Rightarrow> world \<Rightarrow> (error + string \<times> string) \<times> world" where
  "super_bad g mg w = (Inr (''mech'', ''contact''), w)"

text \<open>
  The state a parent leaves behind: parameter dictionaries for the keyword \<open>mech\<close> on the
  grid and on the interface, the keywords not yet recorded on the setup.
\<close>

definition data_ex :: data where
  "data_ex = \<lparr>PARAMETERS = Some [''mech'' \<mapsto> Map.empty], PRIMARY_VARIABLES = None,
     DISCRETIZATION = None, COUPLING_DISCRETIZATION = None\<rparr>"

definition world_ex :: world where
  "world_ex = \<lparr>self = setup_ex\<lparr>key_m := None, key_f := None\<rparr>,
     data_node = data_ex, data_edge = data_ex, discretized = []\<rparr>"

definition world_after :: world where
  "world_after = snd (set_parameters st_square super_ex g_square mg_ex world_ex)"

subsection \<open>Reading the dictionaries\<close>

text \<open>\<^verbatim>\<open>d[pp.PARAMETERS][keyword][name]\<close>, and \<open>None\<close> when a key on the way is missing.\<close>

definition parameter :: "data \<Rightarrow> string \<Rightarrow> string \<Rightarrow> param option" where
  "parameter d keyword name =
     (case PARAMETERS d of None \<Rightarrow> None
      | Some P \<Rightarrow> (case P keyword of None \<Rightarrow> None | Some m \<Rightarrow> m name))"

text \<open>\<^verbatim>\<open>d[pp.COUPLING_DISCRETIZATION][name][key]\<close>, likewise.\<close>

definition coupling :: "data \<Rightarrow> string \<Rightarrow> coupling_key \<Rightarrow> coupling_entry option" where
  "coupling d name key =
     (case COUPLING_DISCRETIZATION d of None \<Rightarrow> None
      | Some C \<Rightarrow> (case C name of None \<Rightarrow> None | Some c \<Rightarrow> c key))"

text \<open>The state once \<open>set_parameters\<close> has recorded the two keywords on the setup.\<close>

definition recorded :: "world \<Rightarrow> string \<Rightarrow> string \<Rightarrow> world" where
  "recorded w km kf = w\<lparr>self := (self w)\<lparr>key_m := Some km, key_f := Some kf\<rparr>\<rparr>"

section \<open>Properties\<close>

subsection \<open>Array operations\<close>

lemma py_index_last_axis:
  assumes "length xs = 3" "d \<le> 3"
  shows "py_index xs (int d - 1) = Inr (xs ! (if d = 0 then 2 else d - 1))"
  using assms by (auto simp: py_index_def nat_diff_distrib')

lemma np_max_Max: "xs \<noteq> [] \<Longrightarrow> np_max xs = Inr (Max (set xs))"
proof (cases xs)
  case (Cons x r)
  then show ?thesis using Max.set_eq_fold [of x r] by (simp add: np_max_def)
qed simp

lemma np_min_Min: "xs \<noteq> [] \<Longrightarrow> np_min xs = Inr (Min (set xs))"
proof (cases xs)
  case (Cons x r)
  then show ?thesis using Min.set_eq_fold [of x r] by (simp add: np_min_def)
qed simp

lemma top_faces_Inr:
  assumes "grid_ok g s_t"
  shows "top_faces g =
     Inr (map (\<lambda>c. c > Max (set (nodes g ! (if dim g = 0 then 2 else dim g - 1))) - 1 / 10 ^ 9)
            (face_centers g ! (if dim g = 0 then 2 else dim g - 1)))"
proof -
  let ?r = "if dim g = 0 then 2 else dim g - 1"
  from assms have d: "dim g \<le> 3" and lf: "length (face_centers g) = 3" and ln: "length (nodes g) = 3"
    and ne: "\<forall>r \<in> set (nodes g). r \<noteq> []"
    by (simp_all add: grid_ok_def)
  have "?r < 3" using d by auto
  with ln have "nodes g ! ?r \<in> set (nodes g)" by (metis nth_mem)
  with ne have "nodes g ! ?r \<noteq> []" by blast
  then show ?thesis
    by (simp add: top_faces_def py_index_last_axis [OF lf d] py_index_last_axis [OF ln d] np_max_Max)
qed

lemma top_faces_props:
  assumes "grid_ok g s_t"
  obtains top_f where "top_faces g = Inr top_f"
    and "\<forall>f \<in> set (fno_unique s_t). f < length top_f"
    and "0 < dim g \<Longrightarrow> \<forall>f < length top_f. top_f ! f = is_top_face g f"
proof -
  let ?r = "if dim g = 0 then 2 else dim g - 1"
  let ?t = "map (\<lambda>c. c > Max (set (nodes g ! ?r)) - 1 / 10 ^ 9) (face_centers g ! ?r)"
  from assms have d: "dim g \<le> 3" and lf: "length (face_centers g) = 3"
    and fr: "\<forall>r \<in> set (face_centers g). \<forall>f \<in> set (fno_unique s_t). f < length r"
    by (simp_all add: grid_ok_def)
  have "?r < 3" using d by auto
  with lf have "face_centers g ! ?r \<in> set (face_centers g)" by (metis nth_mem)
  with fr have 2: "\<forall>f \<in> set (fno_unique s_t). f < length ?t" by simp
  have 3: "0 < dim g \<Longrightarrow> \<forall>f < length ?t. ?t ! f = is_top_face g f"
    by (simp add: is_top_face_def)
  show thesis using that [OF top_faces_Inr [OF assms] 2 3] by blast
qed

lemma fancy_index_Inr:
  "\<forall>i \<in> set idx. i < length xs \<Longrightarrow> fancy_index xs idx = Inr (map (\<lambda>i. xs ! i) idx)"
  by (simp add: fancy_index_def)

lemma replicate_two_updates:
  "2 \<le> d \<Longrightarrow> (replicate d z)[0 := a, Suc 0 := b] = a # b # replicate (d - 2) z"
  by (cases d; simp) (rename_tac d', case_tac d'; simp)

lemma idx_div: "c < (d::nat) \<Longrightarrow> (d * i + c) div d = i"
  by (cases "d = 0") simp_all

lemma idx_mod: "c < (d::nat) \<Longrightarrow> (d * i + c) mod d = c"
  by simp

lemma length_ravel_F: "a \<noteq> [] \<Longrightarrow> length (ravel_F a) = length a * length (hd a)"
  by (cases a) (simp_all add: ravel_F_def)

lemma ravel_F_nth:
  assumes "a \<noteq> []" "i < length (hd a)" "c < length a"
  shows "ravel_F a ! (length a * i + c) = a ! c ! i"
proof -
  obtain r0 rs where a: "a = r0 # rs" using assms(1) by (cases a) auto
  have lt: "length a * i + c < length a * length r0"
  proof -
    have "length a * i + c < length a * i + length a" using assms(3) by simp
    also have "\<dots> = length a * Suc i" by simp
    also have "\<dots> \<le> length a * length r0" using assms(2) a by (intro mult_le_mono2) simp
    finally show ?thesis .
  qed
  have "ravel_F a ! (length a * i + c) = a ! ((length a * i + c) mod length a) ! ((length a * i + c) div length a)"
    using lt unfolding ravel_F_def a list.case by (subst nth_map_upt) (simp_all add: a)
  also have "(length a * i + c) mod length a = c" using assms(3) by (rule idx_mod)
  also have "(length a * i + c) div length a = i" using assms(3) by (rule idx_div)
  finally show ?thesis .
qed

lemma masked_row_nth:
  "length msk = n \<Longrightarrow> i < n \<Longrightarrow> masked_row msk n v ! i = (if msk ! i then v else 0)"
  by (simp add: masked_row_def)

lemma length_masked_row: "length msk = n \<Longrightarrow> length (masked_row msk n v) = n"
  by (simp add: masked_row_def)

lemma bc_values_mech_eq:
  assumes ok: "grid_ok g (ST g)" and d: "2 \<le> dim g" and km: "key_m slf = Some key"
    and xy: "bc_displacement slf t = Inr (x, y)"
    and tf: "top_faces g = Inr top_f" and rng: "\<forall>f \<in> set (fno_unique (ST g)). f < length top_f"
  shows "bc_values ST slf g t key =
     Inr (ravel_F (masked_row (map (\<lambda>i. top_f ! i) (fno_unique (ST g))) (length (fno_unique (ST g))) x
                 # masked_row (map (\<lambda>i. top_f ! i) (fno_unique (ST g))) (length (fno_unique (ST g))) y
                 # replicate (dim g - 2) (replicate (length (fno_unique (ST g))) 0)))"
proof -
  let ?fno = "fno_unique (ST g)"
  let ?n = "length ?fno"
  let ?msk = "map (\<lambda>i. top_f ! i) ?fno"
  let ?z = "replicate ?n (0::real)"
  from ok have n: "num_subfno_unique (ST g) = ?n" by (simp add: grid_ok_def)
  have fi: "fancy_index top_f ?fno = Inr ?msk" using rng by (rule fancy_index_Inr)
  have s0: "set_row_masked (replicate (dim g) ?z) 0 ?msk x
              = Inr ((replicate (dim g) ?z)[0 := masked_row ?msk ?n x])"
    using d by (simp add: set_row_masked_def masked_row_def)
  have s1: "set_row_masked ((replicate (dim g) ?z)[0 := masked_row ?msk ?n x]) (Suc 0) ?msk y
              = Inr ((replicate (dim g) ?z)[0 := masked_row ?msk ?n x, Suc 0 := masked_row ?msk ?n y])"
    using d by (simp add: set_row_masked_def masked_row_def)
  show ?thesis
    unfolding bc_values_def Let_def tf km n np_zeros2_def xy
    by (simp add: fi s0 s1 replicate_two_updates [OF d])
qed

lemma bc_values_mech:
  assumes ok: "grid_ok g (ST g)" and d: "2 \<le> dim g" and km: "key_m slf = Some key"
    and xy: "bc_displacement slf t = Inr (x, y)"
  shows "\<exists>v. bc_values ST slf g t key = Inr v
           \<and> length v = dim g * num_subfno_unique (ST g)
           \<and> (\<forall>i < num_subfno_unique (ST g). \<forall>c < dim g.
                 v ! (dim g * i + c) =
                   (if is_top_face g (fno_unique (ST g) ! i)
                    then (if c = 0 then x else if c = 1 then y else 0) else 0))"
proof -
  let ?fno = "fno_unique (ST g)"
  let ?n = "length ?fno"
  from ok have n: "num_subfno_unique (ST g) = ?n" by (simp add: grid_ok_def)
  from top_faces_props [OF ok] obtain top_f where tf: "top_faces g = Inr top_f"
    and rng: "\<forall>f \<in> set ?fno. f < length top_f"
    and top: "0 < dim g \<Longrightarrow> \<forall>f < length top_f. top_f ! f = is_top_face g f"
    by blast
  let ?msk = "map (\<lambda>i. top_f ! i) ?fno"
  let ?a = "masked_row ?msk ?n x # masked_row ?msk ?n y # replicate (dim g - 2) (replicate ?n 0)"
  have eq: "bc_values ST slf g t key = Inr (ravel_F ?a)"
    using ok d km xy tf rng by (rule bc_values_mech_eq [where ST = ST])
  have la: "length ?a = dim g" using d by simp
  have hd: "length (hd ?a) = ?n" by (simp add: length_masked_row)
  have "length (ravel_F ?a) = length ?a * length (hd ?a)"
    by (rule length_ravel_F) simp
  then have len: "length (ravel_F ?a) = dim g * ?n"
    by (simp only: la hd)
  have nth: "ravel_F ?a ! (dim g * i + c) =
      (if is_top_face g (?fno ! i) then (if c = 0 then x else if c = 1 then y else 0) else 0)"
    if i: "i < ?n" and c: "c < dim g" for i c
  proof -
    have "?fno ! i \<in> set ?fno" using i by simp
    with rng have fl: "?fno ! i < length top_f" by blast
    with top d have t: "top_f ! (?fno ! i) = is_top_face g (?fno ! i)" by simp
    have "ravel_F ?a ! (length ?a * i + c) = ?a ! c ! i"
      using i c la hd by (intro ravel_F_nth) simp_all
    also have "?a ! c ! i =
        (if is_top_face g (?fno ! i) then (if c = 0 then x else if c = 1 then y else 0) else 0)"
    proof -
      consider "c = 0" | "c = 1" | "2 \<le> c" by linarith
      then show ?thesis
      proof cases
        case 1 then show ?thesis using i t by (simp add: masked_row_nth)
      next
        case 2 then show ?thesis using i t by (simp add: masked_row_nth)
      next
        case 3
        then obtain c' where c': "c = Suc (Suc c')" by (metis Suc_le_D Suc_1 le_Suc_eq not_less_eq_eq numeral_2_eq_2 Suc_le_mono)
        with c have "c' < dim g - 2" by simp
        with c' i show ?thesis by simp
      qed
    qed
    finally show ?thesis unfolding la .
  qed
  show ?thesis using eq len nth n by simp
qed

subsection \<open>bc\_values: the three branches\<close>

lemma grid_ok_square: "grid_ok g_square (st_square g_square)"
  by (simp add: grid_ok_def g_square_def st_square_def)

lemma grid_ok_line: "grid_ok g_line (st_line g_line)"
  by (simp add: grid_ok_def g_line_def st_line_def)

lemma bc_values_flow:
  assumes ok: "grid_ok g (ST g)" and km: "key_m slf = Some km" and kf: "key_f slf = Some kf"
    and ne: "kf \<noteq> km"
  shows "bc_values ST slf g t kf = Inr (replicate (num_subfno_unique (ST g)) 0)"
  using ne by (simp add: bc_values_def top_faces_Inr [where s_t = "ST g", OF ok] km kf np_zeros_def)

lemma bc_values_unknown:
  assumes ok: "grid_ok g (ST g)" and km: "key_m slf = Some km" and kf: "key_f slf = Some kf"
    and ne: "key \<noteq> km" "key \<noteq> kf"
  shows "bc_values ST slf g t key = Inl (ValueError (''Unknown keyword: '' @ key))"
  using ne by (simp add: bc_values_def top_faces_Inr [where s_t = "ST g", OF ok] km kf)

lemma bc_displacement_ramp:
  assumes "0 \<le> t \<or> end_time slf \<noteq> 0"
  shows "bc_displacement slf t = Inr (fst (ramp slf t), snd (ramp slf t))"
  using assms by (auto simp: bc_displacement_def py_div_def ramp_def)

lemma bc_displacement_no_ValueError: "bc_displacement slf t = Inl e \<Longrightarrow> e \<noteq> ValueError msg"
  by (auto simp: bc_displacement_def py_div_def split: if_splits)

lemma fancy_index_no_ValueError: "fancy_index xs idx = Inl e \<Longrightarrow> e \<noteq> ValueError msg"
  by (auto simp: fancy_index_def split: if_splits)

lemma set_row_masked_no_ValueError: "set_row_masked a i msk v = Inl e \<Longrightarrow> e \<noteq> ValueError msg"
  by (auto simp: set_row_masked_def split: if_splits)

lemma bc_values_mech_no_ValueError:
  assumes ok: "grid_ok g (ST g)" and km: "key_m slf = Some key"
  shows "bc_values ST slf g t key \<noteq> Inl (ValueError msg)"
proof -
  from top_faces_props [OF ok] obtain top_f where tf: "top_faces g = Inr top_f" by blast
  show ?thesis
    unfolding bc_values_def Let_def tf km
    by (auto split: sum.splits prod.splits
        dest: bc_displacement_no_ValueError fancy_index_no_ValueError set_row_masked_no_ValueError)
qed

subsection \<open>Claims about initial\_condition\<close>

text \<open>
  Claim C8. For every bulk grid \<open>g\<close>, mortar grid \<open>mg\<close> and array \<open>nc\<close> of normal vectors,
  \<open>initial_condition\<close> returns a zero bulk displacement of shape \<open>dim \<times> num_cells\<close>, a zero
  displacement jump of shape \<open>dim \<times> mg.num_cells\<close>, and a contact traction that is \<open>-100\<close>
  times \<open>nc\<close>, entry by entry.
\<close>

theorem initial_condition_start:
  assumes "initial_condition slf g mg nc = (u0, uc, Tc)"
  shows "u0 = replicate (dim g) (replicate (num_cells g) 0)
       \<and> uc = replicate (dim g) (replicate (mortar_num_cells mg) 0)
       \<and> length Tc = length nc
       \<and> (\<forall>i < length nc. length (Tc ! i) = length (nc ! i)
            \<and> (\<forall>j < length (nc ! i). Tc ! i ! j = - 100 * nc ! i ! j))"
  using assms by (auto simp: initial_condition_def np_zeros2_def)

theorem initial_condition_start_witness:
  "initial_condition setup_ex g_square mg_ex [[0, 1], [1, 0]]
     = ([[0], [0]], [[0, 0], [0, 0]], [[0, - 100], [- 100, 0]])
   \<and> [[0], [0]] = replicate (dim g_square) (replicate (num_cells g_square) (0::real))
   \<and> [[0, - 100], [- 100, 0::real]] ! 0 ! 1 = - 100 * [[0, 1], [1, 0]] ! 0 ! 1"
proof -
  have e: "initial_condition setup_ex g_square mg_ex [[0, 1], [1, 0]]
     = ([[0], [0]], [[0, 0], [0, 0]], [[0, - 100], [- 100, 0]])"
    by (simp add: initial_condition_def np_zeros2_def g_square_def mg_ex_def numeral_2_eq_2)
  from initial_condition_start [OF e] show ?thesis using e by simp
qed

subsection \<open>Claims about bc\_values\<close>

text \<open>
  Claim C3, as amended. For every well-formed grid \<open>g\<close> of dimension at least two and every
  time \<open>t \<ge> 0\<close>, \<open>bc_values\<close> called with the mechanics keyword returns a sub-face vector
  whose first two components are \<open>(0.005 t / (end_time/2), -0.002 t / (end_time/2))\<close> on
  every sub-face of the top boundary when \<open>t < end_time/2\<close> and \<open>(0.005, -0.002)\<close> when
  \<open>t \<ge> end_time/2\<close>; every other entry (a third component, and every sub-face off the top
  boundary) is zero.
\<close>

theorem bc_values_mechanics_ramp:
  assumes "grid_ok g (ST g)" and "2 \<le> dim g" and "key_m slf = Some key" and "0 \<le> t"
  shows "\<exists>v. bc_values ST slf g t key = Inr v
           \<and> displacement_on_top g (ST g) (fst (ramp slf t)) (snd (ramp slf t)) v"
proof -
  have "bc_displacement slf t = Inr (fst (ramp slf t), snd (ramp slf t))"
    using assms(4) by (simp add: bc_displacement_ramp)
  from bc_values_mech [where ST = ST and g = g, OF assms(1-3) this] show ?thesis
    unfolding displacement_on_top_def by blast
qed

theorem bc_values_mechanics_ramp_witness:
  "grid_ok g_square (st_square g_square) \<and> 2 \<le> dim g_square \<and> key_m setup_ex = Some ''mech''
   \<and> (0::real) \<le> 1/80
   \<and> (\<exists>v. bc_values st_square setup_ex g_square (1/80) ''mech'' = Inr v
          \<and> displacement_on_top g_square (st_square g_square) (1/400) (- (1/1000)) v)"
proof -
  have d: "2 \<le> dim g_square" by (simp add: g_square_def)
  have k: "key_m setup_ex = Some ''mech''" by (simp add: setup_ex_def)
  have t: "(0::real) \<le> 1/80" by simp
  have r: "ramp setup_ex (1/80) = (1/400, - (1/1000))" by (simp add: ramp_def setup_ex_def)
  from bc_values_mechanics_ramp [where ST = st_square and g = g_square, OF grid_ok_square d k t]
  show ?thesis
    using grid_ok_square d k by (simp add: r)
qed

text \<open>
  The claim as stated, for every grid, fails on a grid of dimension one: the array of
  boundary values has a single row, and the assignment to its second row raises.
\<close>

theorem bc_values_line_grid_counterexample:
  "grid_ok g_line (st_line g_line) \<and> key_m setup_ex = Some ''mech''
   \<and> bc_values st_line setup_ex g_line 0 ''mech'' = Inl IndexError"
proof -
  have tf: "top_faces g_line = Inr [False, False, True]"
    by (simp add: top_faces_def py_index_def np_max_def g_line_def)
  have d: "dim g_line = 1" by (simp add: g_line_def)
  have "bc_values st_line setup_ex g_line 0 ''mech'' = Inl IndexError"
    by (simp add: bc_values_def tf d setup_ex_def st_line_def bc_displacement_def py_div_def
        fancy_index_def np_zeros2_def set_row_masked_def)
  then show ?thesis by (simp add: grid_ok_line setup_ex_def)
qed

text \<open>
  Claim C10, as amended. Once \<open>set_parameters\<close> has recorded the two keywords, on a
  well-formed grid \<open>bc_values\<close> raises a \<open>ValueError\<close> exactly when its keyword is neither
  the mechanics nor the flow keyword. For the flow keyword it returns a vector; for the
  mechanics keyword it returns a vector when the grid has dimension at least two (and the
  time is not negative or \<open>end_time\<close> is not zero).
\<close>

theorem bc_values_keyword_dispatch:
  assumes "grid_ok g (ST g)" and "key_m slf = Some km" and "key_f slf = Some kf"
  shows "((\<exists>msg. bc_values ST slf g t key = Inl (ValueError msg)) \<longleftrightarrow> key \<noteq> km \<and> key \<noteq> kf)
       \<and> (key = kf \<and> key \<noteq> km \<longrightarrow> (\<exists>v. bc_values ST slf g t key = Inr v))
       \<and> (key = km \<and> 2 \<le> dim g \<and> (0 \<le> t \<or> end_time slf \<noteq> 0)
            \<longrightarrow> (\<exists>v. bc_values ST slf g t key = Inr v))"
proof (intro conjI impI)
  show "(\<exists>msg. bc_values ST slf g t key = Inl (ValueError msg)) \<longleftrightarrow> key \<noteq> km \<and> key \<noteq> kf"
  proof
    assume "\<exists>msg. bc_values ST slf g t key = Inl (ValueError msg)"
    then obtain msg where m: "bc_values ST slf g t key = Inl (ValueError msg)" ..
    have "key \<noteq> km" using bc_values_mech_no_ValueError [where ST = ST and g = g and slf = slf and key = key and t = t and msg = msg, OF assms(1)] m assms(2)
      by auto
    moreover have "key \<noteq> kf"
    proof
      assume "key = kf"
      with bc_values_flow [where ST = ST and g = g and t = t, OF assms(1-3)] \<open>key \<noteq> km\<close> m show False by simp
    qed
    ultimately show "key \<noteq> km \<and> key \<noteq> kf" ..
  next
    assume "key \<noteq> km \<and> key \<noteq> kf"
    then show "\<exists>msg. bc_values ST slf g t key = Inl (ValueError msg)"
      using bc_values_unknown [where ST = ST and g = g and t = t and key = key, OF assms(1-3)] by blast
  qed
next
  assume "key = kf \<and> key \<noteq> km"
  then show "\<exists>v. bc_values ST slf g t key = Inr v"
    using bc_values_flow [where ST = ST and g = g and t = t, OF assms(1-3)] by auto
next
  assume a: "key = km \<and> 2 \<le> dim g \<and> (0 \<le> t \<or> end_time slf \<noteq> 0)"
  then have xy: "bc_displacement slf t = Inr (fst (ramp slf t), snd (ramp slf t))"
    by (simp add: bc_displacement_ramp)
  from a assms(2) have k: "key_m slf = Some key" by simp
  from a have d: "2 \<le> dim g" by simp
  from bc_values_mech [where ST = ST and g = g, OF assms(1) d k xy] show "\<exists>v. bc_values ST slf g t key = Inr v" by blast
qed

theorem bc_values_keyword_dispatch_witness:
  "grid_ok g_square (st_square g_square) \<and> key_m setup_ex = Some ''mech''
   \<and> key_f setup_ex = Some ''flow''
   \<and> (\<exists>v. bc_values st_square setup_ex g_square (1/80) ''mech'' = Inr v)
   \<and> (\<exists>v. bc_values st_square setup_ex g_square (1/80) ''flow'' = Inr v)
   \<and> (\<exists>msg. bc_values st_square setup_ex g_square (1/80) ''heat'' = Inl (ValueError msg))"
proof -
  have km: "key_m setup_ex = Some ''mech''" and kf: "key_f setup_ex = Some ''flow''"
    by (simp_all add: setup_ex_def)
  have d: "2 \<le> dim g_square" by (simp add: g_square_def)
  note disp = bc_values_keyword_dispatch [where ST = st_square and g = g_square and t = "1/80",
      OF grid_ok_square km kf]
  from disp [of "''mech''"] d have 1: "\<exists>v. bc_values st_square setup_ex g_square (1/80) ''mech'' = Inr v"
    by simp
  from disp [of "''flow''"] have 2: "\<exists>v. bc_values st_square setup_ex g_square (1/80) ''flow'' = Inr v"
    by simp
  from disp [of "''heat''"]
  have 3: "\<exists>msg. bc_values st_square setup_ex g_square (1/80) ''heat'' = Inl (ValueError msg)"
    by simp
  from grid_ok_square km kf 1 2 3 show ?thesis by blast
qed

text \<open>
  The claim as stated fails for the mechanics keyword on a grid of dimension one: the call
  raises \<open>IndexError\<close>.
\<close>

theorem bc_values_known_keyword_raises_counterexample:
  "grid_ok g_line (st_line g_line)
   \<and> key_m setup_ex = Some ''mech'' \<and> key_f setup_ex = Some ''flow''
   \<and> bc_values st_line setup_ex g_line (1/80) ''mech'' = Inl IndexError"
proof -
  have tf: "top_faces g_line = Inr [False, False, True]"
    by (simp add: top_faces_def py_index_def np_max_def g_line_def)
  have d: "dim g_line = 1" by (simp add: g_line_def)
  have "bc_values st_line setup_ex g_line (1/80) ''mech'' = Inl IndexError"
    by (simp add: bc_values_def tf d setup_ex_def st_line_def bc_displacement_def py_div_def
        fancy_index_def np_zeros2_def set_row_masked_def)
  then show ?thesis by (simp add: grid_ok_line setup_ex_def)
qed

subsection \<open>set\_parameters: the steps\<close>

text \<open>
  Helper facts about the three steps of \<open>set_parameters\<close>, a sufficient condition for the
  call to complete, and a run on the unit square.
\<close>

lemma set_parameters_values_fields:
  assumes "set_parameters_values ST slf g mg km kf = Inr v"
  shows "v_alpha v = 1" and "v_dt v = end_time slf / 20"
    and "v_u0 v = replicate (dim g * num_cells g) 0"
    and "v_p0 v = replicate (num_cells g) 0"
    and "v_lam_u0 v = replicate (dim g * mortar_num_cells mg) 0"
    and "bc_values ST slf g (end_time slf / 20) kf = Inr (v_p_bc v)"
    and "bc_values ST slf g 0 km = Inr (v_u_bc0 v)"
    and "bc_values ST slf g (end_time slf / 20) km = Inr (v_u_bc v)"
  using assms
  by (auto simp: set_parameters_values_def Let_def np_zeros_def split: sum.splits)

lemma set_parameters_values_Inr:
  assumes ok: "grid_ok g (ST g)" and ps: "pressure_scale slf \<noteq> 0"
    and p: "bc_values ST slf g (end_time slf / 20) kf = Inr p_bc"
    and u0: "bc_values ST slf g 0 km = Inr u_bc0"
    and u: "bc_values ST slf g (end_time slf / 20) km = Inr u_bc"
  shows "\<exists>v. set_parameters_values ST slf g mg km kf = Inr v"
proof -
  from ok have lf: "length (face_centers g) = 3" and ln: "length (nodes g) = 3"
    and ne: "\<forall>r \<in> set (nodes g). r \<noteq> []"
    by (simp_all add: grid_ok_def)
  have f0: "py_index (face_centers g) 0 = Inr (face_centers g ! 0)"
    using lf by (simp add: py_index_def)
  have n0: "py_index (nodes g) 0 = Inr (nodes g ! 0)"
    using ln by (simp add: py_index_def)
  have "nodes g ! 0 \<in> set (nodes g)" using ln by (intro nth_mem) simp
  with ne have nn: "nodes g ! 0 \<noteq> []" by blast
  show ?thesis
    using ps
    by (simp add: set_parameters_values_def Let_def py_div_def f0 n0 np_max_Max [OF nn]
        np_min_Min [OF nn] p u0 u)
qed

lemma np_max_not_keyword_error:
  "np_max xs \<noteq> Inl (ValueError ''Mechanics keyword must equal contact keyword'')"
  by (simp add: np_max_def split: list.splits)

lemma np_min_not_keyword_error:
  "np_min xs \<noteq> Inl (ValueError ''Mechanics keyword must equal contact keyword'')"
  by (simp add: np_min_def split: list.splits)

lemma py_index_not_ValueError: "py_index xs i \<noteq> Inl (ValueError msg)"
  by (simp add: py_index_def)

lemma py_div_not_ValueError: "py_div a b \<noteq> Inl (ValueError msg)"
  by (simp add: py_div_def)

lemma top_faces_not_keyword_error:
  "top_faces g \<noteq> Inl (ValueError ''Mechanics keyword must equal contact keyword'')"
  using py_index_not_ValueError np_max_not_keyword_error
  by (auto simp: top_faces_def split: sum.splits)

lemma bc_values_not_keyword_error:
  "bc_values ST slf g t key \<noteq> Inl (ValueError ''Mechanics keyword must equal contact keyword'')"
  using top_faces_not_keyword_error [of g]
  by (auto simp: bc_values_def Let_def split: sum.splits prod.splits option.splits
      dest: bc_displacement_no_ValueError fancy_index_no_ValueError set_row_masked_no_ValueError)

lemma set_parameters_values_not_keyword_error:
  "set_parameters_values ST slf g mg km kf \<noteq> Inl (ValueError ''Mechanics keyword must equal contact keyword'')"
  using py_index_not_ValueError [of "face_centers g" 0] py_index_not_ValueError [of "nodes g" 0]
    py_div_not_ValueError [of "viscosity slf" "pressure_scale slf"]
    np_max_not_keyword_error np_min_not_keyword_error bc_values_not_keyword_error
  by (auto simp: set_parameters_values_def Let_def split: sum.splits)

lemma set_parameters_store_not_ValueError:
  "set_parameters_store g km kc kf v w \<noteq> (Inl (ValueError msg), w')"
  by (simp add: set_parameters_store_def Let_def split: option.splits)

lemma mechanics_updates_simps:
  "mechanics_updates v m ''biot_alpha'' = Some (Scalar (v_alpha v))"
  "mechanics_updates v m ''time_step'' = Some (Scalar (v_dt v))"
  "mechanics_updates v m ''state'' = Some (Dict [''displacement'' \<mapsto> v_u0 v, ''bc_values'' \<mapsto> v_u_bc0 v])"
  by (simp_all add: mechanics_updates_def)

lemma flow_dictionary_simps:
  "flow_dictionary g slf v ''biot_alpha'' = Some (Scalar (v_alpha v))"
  "flow_dictionary g slf v ''time_step'' = Some (Scalar (v_dt v))"
  "flow_dictionary g slf v ''state'' = Some (Array (v_p0 v))"
  by (simp_all add: flow_dictionary_def)

lemma parameter_initialize_data_same:
  "parameter (initialize_data g d kf spec) kf name =
     (case spec name of Some x \<Rightarrow> Some x | None \<Rightarrow> parameter d kf name)"
  by (simp add: parameter_def initialize_data_def map_add_def split: option.splits)

lemma parameter_initialize_data_other:
  "k \<noteq> kf \<Longrightarrow> parameter (initialize_data g d kf spec) k name = parameter d k name"
  by (simp add: parameter_def initialize_data_def split: option.splits)

lemma parameter_update:
  "parameter (d\<lparr>PARAMETERS := Some (P(k \<mapsto> m))\<rparr>) k name = m name"
  by (simp add: parameter_def)

lemma set_parameters_store_Inr:
  assumes "PARAMETERS (data_node w) = Some P" "P km = Some m"
    and "PARAMETERS (data_edge w) = Some Pe" "Pe kc = Some me"
  shows "set_parameters_store g km kc kf v w =
     (Inr (),
      w\<lparr>data_node := initialize_data g
            ((data_node w)\<lparr>PARAMETERS := Some (P(km \<mapsto> mechanics_updates v m))\<rparr>) kf
            (flow_dictionary g (self w) v),
        data_edge := (data_edge w)\<lparr>PARAMETERS := Some (Pe(kc \<mapsto> me(''state'' \<mapsto> Array (v_lam_u0 v))))\<rparr>\<rparr>)"
  using assms by (simp add: set_parameters_store_def Let_def)

lemma set_parameters_store_dictionaries:
  assumes "fst (set_parameters_store g km kc kf v w) = Inr u"
  shows "\<exists>P m Pe me. PARAMETERS (data_node w) = Some P \<and> P km = Some m
           \<and> PARAMETERS (data_edge w) = Some Pe \<and> Pe kc = Some me"
  using assms by (simp add: set_parameters_store_def Let_def split: option.splits)

lemma set_parameters_store_result:
  assumes "set_parameters_store g km kc kf v w = (Inr u, w')"
  shows "self w' = self w" and "discretized w' = discretized w"
    and "parameter (data_node w') km ''biot_alpha'' = Some (Scalar (v_alpha v))"
    and "parameter (data_node w') kf ''biot_alpha'' = Some (Scalar (v_alpha v))"
    and "parameter (data_node w') km ''time_step'' = Some (Scalar (v_dt v))"
    and "parameter (data_node w') kf ''time_step'' = Some (Scalar (v_dt v))"
    and "parameter (data_node w') kf ''state'' = Some (Array (v_p0 v))"
    and "km \<noteq> kf \<Longrightarrow> parameter (data_node w') km ''state''
           = Some (Dict [''displacement'' \<mapsto> v_u0 v, ''bc_values'' \<mapsto> v_u_bc0 v])"
    and "parameter (data_edge w') kc ''state'' = Some (Array (v_lam_u0 v))"
proof -
  from assms have "fst (set_parameters_store g km kc kf v w) = Inr u" by simp
  from set_parameters_store_dictionaries [OF this] obtain P m Pe me
    where d: "PARAMETERS (data_node w) = Some P" "P km = Some m"
      "PARAMETERS (data_edge w) = Some Pe" "Pe kc = Some me" by blast
  note eq = set_parameters_store_Inr [OF d, of g kf v]
  from assms eq have w': "w' = w\<lparr>data_node := initialize_data g
            ((data_node w)\<lparr>PARAMETERS := Some (P(km \<mapsto> mechanics_updates v m))\<rparr>) kf
            (flow_dictionary g (self w) v),
        data_edge := (data_edge w)\<lparr>PARAMETERS := Some (Pe(kc \<mapsto> me(''state'' \<mapsto> Array (v_lam_u0 v))))\<rparr>\<rparr>"
    by simp
  show "self w' = self w" and "discretized w' = discretized w" by (simp_all add: w')
  show "parameter (data_node w') kf ''biot_alpha'' = Some (Scalar (v_alpha v))"
    and "parameter (data_node w') kf ''time_step'' = Some (Scalar (v_dt v))"
    and "parameter (data_node w') kf ''state'' = Some (Array (v_p0 v))"
    by (simp_all add: w' parameter_initialize_data_same flow_dictionary_simps)
  show "parameter (data_node w') km ''biot_alpha'' = Some (Scalar (v_alpha v))"
    and "parameter (data_node w') km ''time_step'' = Some (Scalar (v_dt v))"
    by (cases "km = kf";
        simp add: w' parameter_initialize_data_same parameter_initialize_data_other
          flow_dictionary_simps parameter_update mechanics_updates_simps)+
  show "parameter (data_node w') km ''state''
           = Some (Dict [''displacement'' \<mapsto> v_u0 v, ''bc_values'' \<mapsto> v_u_bc0 v])" if "km \<noteq> kf"
    using that by (simp add: w' parameter_initialize_data_other parameter_update mechanics_updates_simps)
  show "parameter (data_edge w') kc ''state'' = Some (Array (v_lam_u0 v))"
    by (simp add: w' parameter_update)
qed

lemma set_parameters_discretization_keeps:
  "self (set_parameters_discretization g km kf w) = self w"
  "PARAMETERS (data_node (set_parameters_discretization g km kf w)) = PARAMETERS (data_node w)"
  "PARAMETERS (data_edge (set_parameters_discretization g km kf w)) = PARAMETERS (data_edge w)"
  by (simp_all add: set_parameters_discretization_def Let_def)

lemma parameter_discretization:
  "parameter (data_node (set_parameters_discretization g km kf w)) = parameter (data_node w)"
  "parameter (data_edge (set_parameters_discretization g km kf w)) = parameter (data_edge w)"
  by (simp_all add: parameter_def fun_eq_iff set_parameters_discretization_keeps)

lemma set_parameters_Inr_cases:
  assumes "set_parameters ST parent g mg w0 = (Inr keys, w')"
  obtains km w1 v w2 where "parent g mg w0 = (Inr (km, km), w1)" and "keys = (km, ''flow'')"
    and "set_parameters_values ST (self (recorded w1 km ''flow'')) g mg km ''flow'' = Inr v"
    and "set_parameters_store g km km ''flow'' v (recorded w1 km ''flow'') = (Inr (), w2)"
    and "w' = set_parameters_discretization g km ''flow'' w2"
  using assms unfolding set_parameters_def Let_def recorded_def
  by (auto split: prod.splits sum.splits if_splits)

lemma bc_values_known_keyword:
  assumes ok: "grid_ok g (ST g)" and d: "2 \<le> dim g"
    and km: "key_m slf = Some km" and kf: "key_f slf = Some kf"
    and t: "0 \<le> t \<or> end_time slf \<noteq> 0" and key: "key = km \<or> key = kf"
  shows "\<exists>v. bc_values ST slf g t key = Inr v"
proof (cases "key = km")
  case True
  with km have k: "key_m slf = Some key" by simp
  have xy: "bc_displacement slf t = Inr (fst (ramp slf t), snd (ramp slf t))"
    using t by (rule bc_displacement_ramp)
  from bc_values_mech [where ST = ST and g = g, OF ok d k xy] show ?thesis by blast
next
  case False
  with key have "key = kf" "kf \<noteq> km" by simp_all
  with bc_values_flow [where ST = ST and g = g and t = t, OF ok km kf] show ?thesis by simp
qed

lemma set_parameters_succeeds:
  assumes ok: "grid_ok g (ST g)" and d: "2 \<le> dim g"
    and par: "parent g mg w0 = (Inr (km, km), w1)"
    and ps: "pressure_scale (self w1) \<noteq> 0"
    and dn: "PARAMETERS (data_node w1) = Some P" "P km = Some m"
    and de: "PARAMETERS (data_edge w1) = Some Pe" "Pe km = Some me"
  shows "fst (set_parameters ST parent g mg w0) = Inr (km, ''flow'')"
proof -
  let ?w = "recorded w1 km ''flow''"
  let ?s = "self ?w"
  have k: "key_m ?s = Some km" "key_f ?s = Some ''flow''" by (simp_all add: recorded_def)
  have e: "end_time ?s = end_time (self w1)" "pressure_scale ?s = pressure_scale (self w1)"
    by (simp_all add: recorded_def)
  have t0: "(0::real) \<le> 0 \<or> end_time ?s \<noteq> 0" by simp
  have t1: "0 \<le> end_time ?s / 20 \<or> end_time ?s \<noteq> 0" by auto
  from bc_values_known_keyword [where ST = ST and g = g, OF ok d k t1, of "''flow''"]
  obtain p_bc where 1: "bc_values ST ?s g (end_time ?s / 20) ''flow'' = Inr p_bc" by auto
  from bc_values_known_keyword [where ST = ST and g = g, OF ok d k t0, of km]
  obtain u_bc0 where 2: "bc_values ST ?s g 0 km = Inr u_bc0" by auto
  from bc_values_known_keyword [where ST = ST and g = g, OF ok d k t1, of km]
  obtain u_bc where 3: "bc_values ST ?s g (end_time ?s / 20) km = Inr u_bc" by auto
  from ps e have ps': "pressure_scale ?s \<noteq> 0" by simp
  from set_parameters_values_Inr [where ST = ST and g = g and mg = mg, OF ok ps' 1 2 3]
  obtain v where v: "set_parameters_values ST ?s g mg km ''flow'' = Inr v" by blast
  have dn': "PARAMETERS (data_node ?w) = Some P" and de': "PARAMETERS (data_edge ?w) = Some Pe"
    using dn de by (simp_all add: recorded_def)
  note st = set_parameters_store_Inr [OF dn' dn(2) de' de(2), of g "''flow''" v]
  show ?thesis
    using par v st unfolding set_parameters_def Let_def recorded_def by simp
qed

lemma example_run:
  "set_parameters st_square super_ex g_square mg_ex world_ex = (Inr (''mech'', ''flow''), world_after)"
proof -
  have d: "2 \<le> dim g_square" by (simp add: g_square_def)
  have par: "super_ex g_square mg_ex world_ex = (Inr (''mech'', ''mech''), world_ex)"
    by (simp add: super_ex_def)
  have ps: "pressure_scale (self world_ex) \<noteq> 0" by (simp add: world_ex_def setup_ex_def)
  have dn: "PARAMETERS (data_node world_ex) = Some [''mech'' \<mapsto> Map.empty]"
    and de: "PARAMETERS (data_edge world_ex) = Some [''mech'' \<mapsto> Map.empty]"
    by (simp_all add: world_ex_def data_ex_def)
  have m: "[''mech'' \<mapsto> (Map.empty :: string \<rightharpoonup> param)] ''mech'' = Some Map.empty" by simp
  from set_parameters_succeeds [where ST = st_square and g = g_square and parent = super_ex
      and mg = mg_ex and ?w0.0 = world_ex, OF grid_ok_square d par ps dn m de m]
  have "fst (set_parameters st_square super_ex g_square mg_ex world_ex) = Inr (''mech'', ''flow'')" .
  then show ?thesis unfolding world_after_def by (metis prod.collapse)
qed

lemma bad_run:
  "super_bad g_square mg_ex world_ex = (Inr (''mech'', ''contact''), world_ex)"
  by (simp add: super_bad_def)

lemma set_parameters_discretization_tables:
  "PRIMARY_VARIABLES (data_node (set_parameters_discretization g km kf w))
     = Some [''u'' \<mapsto> [''cells'' \<mapsto> dim g], ''p'' \<mapsto> [''cells'' \<mapsto> 1]]"
  "DISCRETIZATION (data_node (set_parameters_discretization g km kf w))
     = Some [''u'' \<mapsto> [''div_sigma'' \<mapsto> Mpsa km],
             ''p'' \<mapsto> [''flux'' \<mapsto> ImplicitMpfa kf,
                      ''mass'' \<mapsto> ImplicitMassMatrix kf,
                      ''stab'' \<mapsto> BiotStabilization kf],
             ''u_p'' \<mapsto> [''grad_p'' \<mapsto> GradP km],
             ''p_u'' \<mapsto> [''div_u'' \<mapsto> DivD km]]"
  "PRIMARY_VARIABLES (data_edge (set_parameters_discretization g km kf w))
     = Some [''lam_u'' \<mapsto> [''cells'' \<mapsto> dim g]]"
  by (simp_all add: set_parameters_discretization_def Let_def)

lemma set_parameters_discretization_coupling:
  "coupling (data_edge (set_parameters_discretization g km kf w)) name key =
     (if name = ''robin_discretization'' then
        (if key = GridKey g then Some (Term ''u'' ''div_sigma'')
         else if key = EdgeKey g g then Some (Law ''lam_u'' (RobinContact km (Mpsa km)))
         else None)
      else if name = ''p_contribution_to_displacement'' then
        (if key = GridKey g then Some (Term ''p'' ''flux'')
         else if key = EdgeKey g g then Some (Law ''lam_u'' (RobinContactBiotPressure km (GradP km)))
         else None)
      else if name = ''lam_u_contr_2_div_u'' then
        (if key = GridKey g then Some (Term ''p'' ''flux'')
         else if key = EdgeKey g g then Some (Law ''lam_u'' (DivU_StressMortar km (DivD km)))
         else None)
      else None)"
  by (simp add: coupling_def set_parameters_discretization_def Let_def)

lemma coupling_grid_terms:
  assumes "set_parameters ST parent g mg w0 = (Inr keys, w')"
  shows "coupling (data_edge w') ''p_contribution_to_displacement'' (GridKey g) = Some (Term ''p'' ''flux'')"
    and "coupling (data_edge w') ''lam_u_contr_2_div_u'' (GridKey g) = Some (Term ''p'' ''flux'')"
  using assms
  by (elim set_parameters_Inr_cases; simp add: set_parameters_discretization_coupling)+

subsection \<open>Claims about set\_parameters\<close>

text \<open>
  Claim C1. When the parent returns a mechanics keyword that differs from the contact
  keyword, \<open>set_parameters\<close> raises the error \<open>Mechanics keyword must equal contact keyword\<close>
  and leaves the state as the parent left it: nothing is stored, no discretization is
  registered and none is performed. The call ends with that error exactly when the two
  keywords differ.
\<close>

theorem set_parameters_keyword_check:
  assumes "parent g mg w0 = (Inr (km, kc), w)"
  shows "(fst (set_parameters ST parent g mg w0)
            = Inl (ValueError ''Mechanics keyword must equal contact keyword'') \<longleftrightarrow> km \<noteq> kc)
       \<and> (km \<noteq> kc \<longrightarrow> snd (set_parameters ST parent g mg w0) = w)"
proof -
  have 1: "km \<noteq> kc \<Longrightarrow> set_parameters ST parent g mg w0
       = (Inl (ValueError ''Mechanics keyword must equal contact keyword''), w)"
    using assms by (simp add: set_parameters_def)
  have 2: "fst (set_parameters ST parent g mg w0)
       \<noteq> Inl (ValueError ''Mechanics keyword must equal contact keyword'')" if "km = kc"
    using assms that
      set_parameters_values_not_keyword_error [of ST "self (recorded w km ''flow'')" g mg km "''flow''"]
      set_parameters_store_not_ValueError
    unfolding set_parameters_def Let_def recorded_def
    by (auto split: sum.splits prod.splits)
  from 1 2 show ?thesis by auto
qed

theorem set_parameters_keyword_check_witness:
  "super_bad g_square mg_ex world_ex = (Inr (''mech'', ''contact''), world_ex)
   \<and> ''mech'' \<noteq> ''contact''
   \<and> set_parameters st_square super_bad g_square mg_ex world_ex
       = (Inl (ValueError ''Mechanics keyword must equal contact keyword''), world_ex)"
proof -
  have ne: "''mech'' \<noteq> ''contact''" by simp
  from set_parameters_keyword_check [where parent = super_bad and g = g_square and mg = mg_ex
      and ?w0.0 = world_ex and ST = st_square, OF bad_run] ne
  have "fst (set_parameters st_square super_bad g_square mg_ex world_ex)
          = Inl (ValueError ''Mechanics keyword must equal contact keyword'')"
    and "snd (set_parameters st_square super_bad g_square mg_ex world_ex) = world_ex"
    by simp_all
  then have "set_parameters st_square super_bad g_square mg_ex world_ex
       = (Inl (ValueError ''Mechanics keyword must equal contact keyword''), world_ex)"
    by (simp add: prod_eq_iff)
  with bad_run ne show ?thesis by simp
qed

text \<open>
  Claim C2. The claim asks for the \<open>grad_p\<close> term in the coupling
  \<open>p_contribution_to_displacement\<close> and for the \<open>div_u\<close> term in \<open>lam_u_contr_2_div_u\<close>.
  After a completed call both couplings refer, on the bulk grid, to the pair
  \<open>(p, flux)\<close>; here on the unit square.
\<close>

theorem coupling_terms_are_flux:
  "set_parameters st_square super_ex g_square mg_ex world_ex = (Inr (''mech'', ''flow''), world_after)
   \<and> coupling (data_edge world_after) ''p_contribution_to_displacement'' (GridKey g_square)
       = Some (Term ''p'' ''flux'')
   \<and> coupling (data_edge world_after) ''lam_u_contr_2_div_u'' (GridKey g_square)
       = Some (Term ''p'' ''flux'')"
  using example_run coupling_grid_terms [OF example_run] by simp

text \<open>
  Claim C4. After a completed call the discretization table of the bulk grid is exactly:
  \<open>Mpsa\<close> as \<open>div_sigma\<close> for \<open>u\<close>; \<open>ImplicitMpfa\<close> as \<open>flux\<close>, \<open>ImplicitMassMatrix\<close> as
  \<open>mass\<close> and \<open>BiotStabilization\<close> as \<open>stab\<close> for \<open>p\<close>; \<open>GradP\<close> as \<open>grad_p\<close> for the block
  \<open>u_p\<close>; \<open>DivD\<close> as \<open>div_u\<close> for the block \<open>p_u\<close>. The mechanics operators carry the
  mechanics keyword, the flow operators the keyword \<open>flow\<close>.
\<close>

theorem discretization_bulk:
  assumes "set_parameters ST parent g mg w0 = (Inr keys, w')"
  shows "snd keys = ''flow''
       \<and> DISCRETIZATION (data_node w')
           = Some [''u'' \<mapsto> [''div_sigma'' \<mapsto> Mpsa (fst keys)],
                   ''p'' \<mapsto> [''flux'' \<mapsto> ImplicitMpfa (snd keys),
                            ''mass'' \<mapsto> ImplicitMassMatrix (snd keys),
                            ''stab'' \<mapsto> BiotStabilization (snd keys)],
                   ''u_p'' \<mapsto> [''grad_p'' \<mapsto> GradP (fst keys)],
                   ''p_u'' \<mapsto> [''div_u'' \<mapsto> DivD (fst keys)]]"
  using assms by (elim set_parameters_Inr_cases) (simp add: set_parameters_discretization_tables)

theorem discretization_bulk_witness:
  "set_parameters st_square super_ex g_square mg_ex world_ex = (Inr (''mech'', ''flow''), world_after)
   \<and> DISCRETIZATION (data_node world_after)
           = Some [''u'' \<mapsto> [''div_sigma'' \<mapsto> Mpsa ''mech''],
                   ''p'' \<mapsto> [''flux'' \<mapsto> ImplicitMpfa ''flow'',
                            ''mass'' \<mapsto> ImplicitMassMatrix ''flow'',
                            ''stab'' \<mapsto> BiotStabilization ''flow''],
                   ''u_p'' \<mapsto> [''grad_p'' \<mapsto> GradP ''mech''],
                   ''p_u'' \<mapsto> [''div_u'' \<mapsto> DivD ''mech'']]"
  using discretization_bulk [OF example_run] example_run by simp

text \<open>
  Claim C5. After a completed call the interface declares the single primary variable
  \<open>lam_u\<close> with \<open>dim\<close> components per mortar cell, the three couplings
  \<open>robin_discretization\<close>, \<open>p_contribution_to_displacement\<close> and \<open>lam_u_contr_2_div_u\<close> carry
  their interface law under \<open>lam_u\<close>, and no interface law is registered under another
  variable.
\<close>

theorem interface_single_mortar_variable:
  assumes "set_parameters ST parent g mg w0 = (Inr keys, w')"
  shows "PRIMARY_VARIABLES (data_edge w') = Some [''lam_u'' \<mapsto> [''cells'' \<mapsto> dim g]]
       \<and> coupling (data_edge w') ''robin_discretization'' (EdgeKey g g)
           = Some (Law ''lam_u'' (RobinContact (fst keys) (Mpsa (fst keys))))
       \<and> coupling (data_edge w') ''p_contribution_to_displacement'' (EdgeKey g g)
           = Some (Law ''lam_u'' (RobinContactBiotPressure (fst keys) (GradP (fst keys))))
       \<and> coupling (data_edge w') ''lam_u_contr_2_div_u'' (EdgeKey g g)
           = Some (Law ''lam_u'' (DivU_StressMortar (fst keys) (DivD (fst keys))))
       \<and> (\<forall>name key var law. coupling (data_edge w') name key = Some (Law var law) \<longrightarrow> var = ''lam_u'')"
  using assms
  by (elim set_parameters_Inr_cases)
     (auto simp: set_parameters_discretization_tables set_parameters_discretization_coupling
       split: if_splits)

theorem interface_single_mortar_variable_witness:
  "set_parameters st_square super_ex g_square mg_ex world_ex = (Inr (''mech'', ''flow''), world_after)
   \<and> PRIMARY_VARIABLES (data_edge world_after) = Some [''lam_u'' \<mapsto> [''cells'' \<mapsto> 2]]
   \<and> coupling (data_edge world_after) ''robin_discretization'' (EdgeKey g_square g_square)
       = Some (Law ''lam_u'' (RobinContact ''mech'' (Mpsa ''mech'')))
   \<and> coupling (data_edge world_after) ''p_contribution_to_displacement'' (EdgeKey g_square g_square)
       = Some (Law ''lam_u'' (RobinContactBiotPressure ''mech'' (GradP ''mech'')))
   \<and> coupling (data_edge world_after) ''lam_u_contr_2_div_u'' (EdgeKey g_square g_square)
       = Some (Law ''lam_u'' (DivU_StressMortar ''mech'' (DivD ''mech'')))"
proof -
  have "dim g_square = 2" by (simp add: g_square_def)
  with interface_single_mortar_variable [OF example_run] example_run show ?thesis by simp
qed

text \<open>
  Claim C6. For every grid \<open>g\<close>, a completed call declares on the bulk grid the primary
  variables \<open>u\<close> with \<open>dim g\<close> components per cell and \<open>p\<close> with one component per cell, and
  no other.
\<close>

theorem primary_variables_bulk:
  assumes "set_parameters ST parent g mg w0 = (Inr keys, w')"
  shows "PRIMARY_VARIABLES (data_node w')
           = Some [''u'' \<mapsto> [''cells'' \<mapsto> dim g], ''p'' \<mapsto> [''cells'' \<mapsto> 1]]"
  using assms by (elim set_parameters_Inr_cases) (simp add: set_parameters_discretization_tables)

theorem primary_variables_bulk_witness:
  "set_parameters st_square super_ex g_square mg_ex world_ex = (Inr (''mech'', ''flow''), world_after)
   \<and> PRIMARY_VARIABLES (data_node world_after)
       = Some [''u'' \<mapsto> [''cells'' \<mapsto> 2], ''p'' \<mapsto> [''cells'' \<mapsto> 1]]"
proof -
  have "dim g_square = 2" by (simp add: g_square_def)
  with primary_variables_bulk [OF example_run] example_run show ?thesis by simp
qed

text \<open>
  Claim C7. After a completed call whose mechanics keyword is not the flow keyword,
  \<open>bc_values\<close> with the flow keyword returns, on every well-formed grid and at every time,
  the zero vector with one entry per unique sub-face; and the stored state is a zero
  displacement of length \<open>dim \<times> num_cells\<close>, a zero pressure of length \<open>num_cells\<close> and a zero
  mortar state of length \<open>dim \<times> mg.num_cells\<close>.
\<close>

theorem starts_from_rest:
  assumes "set_parameters ST parent g mg w0 = (Inr keys, w')" and "fst keys \<noteq> ''flow''"
  shows "(\<forall>g' t. grid_ok g' (ST g') \<longrightarrow>
            bc_values ST (self w') g' t (snd keys) = Inr (replicate (num_subfno_unique (ST g')) 0))
       \<and> (\<exists>d. parameter (data_node w') (fst keys) ''state'' = Some (Dict d)
              \<and> d ''displacement'' = Some (replicate (dim g * num_cells g) 0))
       \<and> parameter (data_node w') (snd keys) ''state'' = Some (Array (replicate (num_cells g) 0))
       \<and> parameter (data_edge w') (fst keys) ''state''
           = Some (Array (replicate (dim g * mortar_num_cells mg) 0))"
  using assms
proof (elim set_parameters_Inr_cases)
  fix km w1 v w2
  assume keys: "keys = (km, ''flow'')"
    and v: "set_parameters_values ST (self (recorded w1 km ''flow'')) g mg km ''flow'' = Inr v"
    and st: "set_parameters_store g km km ''flow'' v (recorded w1 km ''flow'') = (Inr (), w2)"
    and w': "w' = set_parameters_discretization g km ''flow'' w2"
  from assms(2) keys have ne: "km \<noteq> ''flow''" by simp
  note f = set_parameters_values_fields [OF v]
  note r = set_parameters_store_result [OF st]
  have s: "self w' = self (recorded w1 km ''flow'')"
    by (simp add: w' set_parameters_discretization_keeps r(1))
  have k: "key_m (self w') = Some km" "key_f (self w') = Some ''flow''"
    by (simp_all add: s recorded_def)
  have bc: "bc_values ST (self w') g' t ''flow'' = Inr (replicate (num_subfno_unique (ST g')) 0)"
    if "grid_ok g' (ST g')" for g' t
    using bc_values_flow [where ST = ST and g = g', OF that k] ne by simp
  show ?thesis
    using bc ne by (simp add: keys w' parameter_discretization r f(3,4,5))
qed

theorem starts_from_rest_witness:
  "set_parameters st_square super_ex g_square mg_ex world_ex = (Inr (''mech'', ''flow''), world_after)
   \<and> ''mech'' \<noteq> ''flow'' \<and> grid_ok g_square (st_square g_square)
   \<and> bc_values st_square (self world_after) g_square (1/80) ''flow'' = Inr (replicate 8 0)
   \<and> parameter (data_node world_after) ''flow'' ''state'' = Some (Array (replicate 1 0))
   \<and> parameter (data_edge world_after) ''mech'' ''state'' = Some (Array (replicate 4 0))"
proof -
  have ne: "fst (''mech'', ''flow'') \<noteq> ''flow''" by simp
  have n: "num_subfno_unique (st_square g_square) = 8" "dim g_square = 2" "num_cells g_square = 1"
    "mortar_num_cells mg_ex = 2"
    by (simp_all add: st_square_def g_square_def mg_ex_def)
  from starts_from_rest [OF example_run ne] grid_ok_square n example_run
  show ?thesis by simp
qed

text \<open>
  Claim C9. After a completed call the Biot coefficient stored under the mechanics keyword
  and the one stored under the flow keyword are both \<open>1\<close>, and the time step stored under
  either keyword is \<open>end_time / 20\<close>.
\<close>

theorem biot_data_on_both_sides:
  assumes "set_parameters ST parent g mg w0 = (Inr keys, w')"
  shows "parameter (data_node w') (fst keys) ''biot_alpha'' = Some (Scalar 1)
       \<and> parameter (data_node w') (snd keys) ''biot_alpha'' = Some (Scalar 1)
       \<and> parameter (data_node w') (fst keys) ''time_step'' = Some (Scalar (end_time (self w') / 20))
       \<and> parameter (data_node w') (snd keys) ''time_step'' = Some (Scalar (end_time (self w') / 20))"
  using assms
proof (elim set_parameters_Inr_cases)
  fix km w1 v w2
  assume keys: "keys = (km, ''flow'')"
    and v: "set_parameters_values ST (self (recorded w1 km ''flow'')) g mg km ''flow'' = Inr v"
    and st: "set_parameters_store g km km ''flow'' v (recorded w1 km ''flow'') = (Inr (), w2)"
    and w': "w' = set_parameters_discretization g km ''flow'' w2"
  note f = set_parameters_values_fields [OF v]
  note r = set_parameters_store_result [OF st]
  have e: "end_time (self (set_parameters_discretization g km ''flow'' w2))
             = end_time (self (recorded w1 km ''flow''))"
    by (simp add: set_parameters_discretization_keeps r(1))
  show ?thesis
    by (simp add: keys w' parameter_discretization r e f(1,2))
qed

theorem biot_data_on_both_sides_witness:
  "set_parameters st_square super_ex g_square mg_ex world_ex = (Inr (''mech'', ''flow''), world_after)
   \<and> parameter (data_node world_after) ''mech'' ''biot_alpha'' = Some (Scalar 1)
   \<and> parameter (data_node world_after) ''flow'' ''biot_alpha'' = Some (Scalar 1)
   \<and> parameter (data_node world_after) ''mech'' ''time_step'' = Some (Scalar (end_time (self world_after) / 20))
   \<and> parameter (data_node world_after) ''flow'' ''time_step'' = Some (Scalar (end_time (self world_after) / 20))"
  using biot_data_on_both_sides [OF example_run] example_run by simp

end
